theory Spec2Isabelle
  imports Complex_Main "HOL-Library.Sublist"
begin

section \<open>The recognition engine of \<open>motor_reconocimiento.py\<close>\<close>

text \<open>
  The engine classifies free-text maintenance descriptions against two keyword
  taxonomies (spare parts, \<open>repuestos\<close>, and labour, \<open>trabajos\<close>).

  Modelling decisions, valid for the whole development:
  \<^item> Python \<open>str\<close> values are \<open>string\<close>s. The text functions are modelled on ASCII
    text: there \<open>str.lower\<close> maps \<open>A\<close>--\<open>Z\<close> to \<open>a\<close>--\<open>z\<close>, canonical decomposition
    (\<open>NFD\<close>) is the identity, no character has category \<open>Mn\<close>, \<open>\s\<close> and
    \<open>str.isspace\<close> hold of the code points 9--13 and 28--32, and \<open>\w\<close> holds of
    letters, digits and the underscore.
  \<^item> A Python \<open>float\<close> is a \<open>real\<close> number. Every floating-point operation is
    the exact operation followed by a rounding \<open>rd\<close>, a parameter of the model
    (for the engine, rounding to the nearest double); a decimal literal that is
    not a double, such as \<open>0.8\<close>, is rounded too, while \<open>1.5\<close>, \<open>2.0\<close>, \<open>1.0\<close>,
    \<open>0.0\<close> and \<open>100\<close> are doubles. Comparisons, \<open>min\<close>, \<open>max\<close> and negation are
    exact. With \<open>rd\<close> the identity the arithmetic is that of the reals.
  \<^item> A Python \<open>dict\<close> keeps insertion order, which the engine iterates over, so a
    dictionary is an association list.
  \<^item> The SQLite audit table is an external collaborator: the insertion is a
    parameter \<open>escribir\<close> that either returns the new store or raises.
\<close>

subsection \<open>Characters and strings\<close>

definition es_espacio :: "char \<Rightarrow> bool" where
  "es_espacio c \<longleftrightarrow>
     c \<in> set [CHR 0x09, CHR 0x0A, CHR 0x0B, CHR 0x0C, CHR 0x0D,
               CHR 0x1C, CHR 0x1D, CHR 0x1E, CHR 0x1F, CHR 0x20]"

definition mayusculas :: string where
  "mayusculas = ''ABCDEFGHIJKLMNOPQRSTUVWXYZ''"

definition minusculas :: string where
  "minusculas = ''abcdefghijklmnopqrstuvwxyz''"

definition es_palabra :: "char \<Rightarrow> bool" where
  "es_palabra c \<longleftrightarrow> c \<in> set (minusculas @ mayusculas @ ''0123456789_'')"

definition lower_char :: "char \<Rightarrow> char" where
  "lower_char c = (case map_of (zip mayusculas minusculas) c of Some l \<Rightarrow> l | None \<Rightarrow> c)"

definition lower :: "string \<Rightarrow> string" where
  "lower s = map lower_char s"

definition strip :: "string \<Rightarrow> string" where
  "strip s = rev (dropWhile es_espacio (rev (dropWhile es_espacio s)))"

text \<open>\<open>re.sub(r'\s+', ' ', texto)\<close>: every maximal run of whitespace becomes one space.\<close>

function colapsar_espacios :: "string \<Rightarrow> string" where
  "colapsar_espacios [] = []"
| "colapsar_espacios (c # cs) =
     (if es_espacio c then CHR '' '' # colapsar_espacios (dropWhile es_espacio cs)
      else c # colapsar_espacios cs)"
  by pat_completeness auto
termination
  by (relation "measure length") (auto simp: length_dropWhile_le less_Suc_eq_le)

text \<open>\<open>re.sub(r'[^\w\s]', ' ', texto)\<close>: every other character becomes a space.\<close>

definition quitar_especiales :: "string \<Rightarrow> string" where
  "quitar_especiales s = map (\<lambda>c. if es_palabra c \<or> es_espacio c then c else CHR '' '') s"

definition normalizar_texto :: "string \<Rightarrow> string" where
  "normalizar_texto texto =
     (if texto = [] then []
      else strip (quitar_especiales (colapsar_espacios (lower texto))))"

text \<open>\<open>palabra_norm in texto_normalizado\<close>: the substring test.\<close>

fun contiene :: "string \<Rightarrow> string \<Rightarrow> bool" where
  "contiene k [] = (k = [])"
| "contiene k (c # cs) = (prefix k (c # cs) \<or> contiene k cs)"

text \<open>
  \<open>re.search(r'\b' + re.escape(k) + r'\b', texto)\<close>. A word boundary lies between
  two positions exactly one of which holds a word character; the positions before
  the first and after the last character hold none. The pattern has no choice
  points, so the search succeeds iff some start position has \<open>k\<close> as a prefix
  with a boundary on both sides.
\<close>

definition es_palabra_opt :: "char option \<Rightarrow> bool" where
  "es_palabra_opt x = (case x of None \<Rightarrow> False | Some c \<Rightarrow> es_palabra c)"

definition frontera :: "char option \<Rightarrow> char option \<Rightarrow> bool" where
  "frontera a b \<longleftrightarrow> es_palabra_opt a \<noteq> es_palabra_opt b"

definition primero :: "string \<Rightarrow> char option" where
  "primero s = (case s of [] \<Rightarrow> None | c # _ \<Rightarrow> Some c)"

definition coincide_aqui :: "string \<Rightarrow> char option \<Rightarrow> string \<Rightarrow> bool" where
  "coincide_aqui k previo resto \<longleftrightarrow>
     prefix k resto \<and> frontera previo (primero resto) \<and>
     frontera (if k = [] then previo else Some (last k)) (primero (drop (length k) resto))"

fun buscar_desde :: "string \<Rightarrow> char option \<Rightarrow> string \<Rightarrow> bool" where
  "buscar_desde k previo [] = coincide_aqui k previo []"
| "buscar_desde k previo (c # cs) =
     (coincide_aqui k previo (c # cs) \<or> buscar_desde k (Some c) cs)"

definition palabra_completa :: "string \<Rightarrow> string \<Rightarrow> bool" where
  "palabra_completa k texto = buscar_desde k None texto"

text \<open>\<open>descripcion.split('|')\<close>.\<close>

fun split_aux :: "char \<Rightarrow> string \<Rightarrow> string \<Rightarrow> string list" where
  "split_aux sep acc [] = [rev acc]"
| "split_aux sep acc (c # cs) =
     (if c = sep then rev acc # split_aux sep [] cs else split_aux sep (c # acc) cs)"

definition split :: "char \<Rightarrow> string \<Rightarrow> string list" where
  "split sep s = split_aux sep [] s"

subsection \<open>Taxonomy rows and classification results\<close>

text \<open>
  A column read from an SQLite row is dynamically typed; \<open>categoria_padre\<close> is
  tested both for truthiness (\<open>not dato['categoria_padre']\<close>) and for identity with
  \<open>None\<close>, so its values are kept apart.
\<close>

datatype valor = Nulo | Entero int | Texto string

fun verdadero :: "valor \<Rightarrow> bool" where
  "verdadero Nulo = False"
| "verdadero (Entero n) = (n \<noteq> 0)"
| "verdadero (Texto s) = (s \<noteq> [])"

text \<open>
  One entry of the keyword dictionaries. \<open>complejidad\<close> is \<open>None\<close> when the key is
  absent (the spare-part rows), as \<open>dato.get('complejidad', 1)\<close> distinguishes;
  \<open>es_sinonimo\<close> is the truth value of the column.
\<close>

record dato =
  palabra_original :: string
  peso :: real
  es_sinonimo :: bool
  palabra_principal :: valor
  categoria_id :: int
  categoria_nombre :: string
  categoria_padre :: valor
  color_codigo :: string
  complejidad :: "int option"

type_synonym palabras_clave = "(string \<times> dato list) list"

text \<open>The dataclass \<open>ClasificacionResultado\<close>.\<close>

record clasificacion_resultado =
  categoria :: string
  cr_categoria_id :: int
  confianza :: real
  palabras_encontradas :: "string list"
  es_categoria_padre :: bool
  cr_color_codigo :: string

text \<open>The dataclass \<open>DeteccionCompleta\<close>.\<close>

record deteccion_completa =
  texto_original :: string
  texto_normalizado :: string
  clasificaciones :: "clasificacion_resultado list"
  mejor_clasificacion :: "clasificacion_resultado option"
  confianza_total :: real

subsection \<open>Loading the keyword dictionary\<close>

text \<open>
  \<open>cargar_palabras_clave_*\<close> groups the rows of the query, in their order, under the
  normalised keyword (\<open>defaultdict(list)\<close>). A row is the original keyword with
  its entry; the query itself is SQLite's.
\<close>

fun agregar_fila :: "string \<Rightarrow> dato \<Rightarrow> palabras_clave \<Rightarrow> palabras_clave" where
  "agregar_fila k d [] = [(k, [d])]"
| "agregar_fila k d ((k', ds) # resto) =
     (if k = k' then (k', ds @ [d]) # resto else (k', ds) # agregar_fila k d resto)"

fun cargar_palabras_clave :: "dato list \<Rightarrow> palabras_clave \<Rightarrow> palabras_clave" where
  "cargar_palabras_clave [] palabras = palabras"
| "cargar_palabras_clave (fila # filas) palabras =
     cargar_palabras_clave filas
       (agregar_fila (normalizar_texto (palabra_original fila)) fila palabras)"

subsection \<open>Confidence of one matched entry\<close>

text \<open>
  The confidence after the whole-word bonus and the synonym penalty, the first
  steps of the inner loop of both passes.
\<close>

definition confianza_sinonimo :: "(real \<Rightarrow> real) \<Rightarrow> string \<Rightarrow> string \<Rightarrow> dato \<Rightarrow> real" where
  "confianza_sinonimo rd texto_norm palabra_norm d =
     (let c0 = peso d;
          c1 = (if palabra_completa palabra_norm texto_norm then rd (c0 * 1.5) else c0)
      in if es_sinonimo d then rd (c1 * rd 0.8) else c1)"

text \<open>The body of the inner loop of \<open>detectar_repuestos\<close>, up to the threshold test.\<close>

definition confianza_repuesto :: "(real \<Rightarrow> real) \<Rightarrow> string \<Rightarrow> string \<Rightarrow> dato \<Rightarrow> real" where
  "confianza_repuesto rd texto_norm palabra_norm d =
     (let c2 = confianza_sinonimo rd texto_norm palabra_norm d;
          c3 = (if \<not> verdadero (categoria_padre d) then rd (c2 * rd 0.9)
                else rd (c2 * rd 1.1))
      in min (rd (c3 / 2.0)) 1.0)"

text \<open>The same for \<open>detectar_trabajos\<close>, with the complexity bonus.\<close>

definition confianza_trabajo :: "(real \<Rightarrow> real) \<Rightarrow> string \<Rightarrow> string \<Rightarrow> dato \<Rightarrow> real" where
  "confianza_trabajo rd texto_norm palabra_norm d =
     (let c2 = confianza_sinonimo rd texto_norm palabra_norm d;
          c3 = (if \<not> verdadero (categoria_padre d) then rd (c2 * rd 0.9)
                else rd (c2 * rd 1.1));
          c4 = (if (case complejidad d of None \<Rightarrow> 1 | Some n \<Rightarrow> n) \<ge> 3
                then rd (c3 * rd 1.2) else c3)
      in min (rd (c4 / 2.0)) 1.0)"

definition resultado_de :: "dato \<Rightarrow> real \<Rightarrow> clasificacion_resultado" where
  "resultado_de d c =
     \<lparr> categoria = categoria_nombre d,
       cr_categoria_id = categoria_id d,
       confianza = c,
       palabras_encontradas = [palabra_original d],
       es_categoria_padre = (categoria_padre d = Nulo),
       cr_color_codigo = color_codigo d \<rparr>"

subsection \<open>Candidates, deduplication and ranking\<close>

text \<open>
  The two nested loops over \<open>palabras_clave.items()\<close>: the candidates, in the order
  they are appended. \<open>conf\<close> is the confidence computation of the pass.
\<close>

fun candidatos_dato ::
  "(string \<Rightarrow> string \<Rightarrow> dato \<Rightarrow> real) \<Rightarrow> string \<Rightarrow> real \<Rightarrow> string \<Rightarrow> dato list
     \<Rightarrow> clasificacion_resultado list" where
  "candidatos_dato conf texto_norm umbral palabra_norm [] = []"
| "candidatos_dato conf texto_norm umbral palabra_norm (d # ds) =
     (let c = conf texto_norm palabra_norm d
      in if c \<ge> umbral
         then resultado_de d c # candidatos_dato conf texto_norm umbral palabra_norm ds
         else candidatos_dato conf texto_norm umbral palabra_norm ds)"

fun candidatos ::
  "(string \<Rightarrow> string \<Rightarrow> dato \<Rightarrow> real) \<Rightarrow> string \<Rightarrow> real \<Rightarrow> palabras_clave
     \<Rightarrow> clasificacion_resultado list" where
  "candidatos conf texto_norm umbral [] = []"
| "candidatos conf texto_norm umbral ((palabra_norm, datos_palabra) # resto) =
     (if contiene palabra_norm texto_norm
      then candidatos_dato conf texto_norm umbral palabra_norm datos_palabra
           @ candidatos conf texto_norm umbral resto
      else candidatos conf texto_norm umbral resto)"

text \<open>
  \<open>clasificaciones_unicas[key] = cls\<close> on an insertion-ordered dictionary: an
  existing key keeps its position, a new key goes last.
\<close>

fun asignar :: "string \<Rightarrow> clasificacion_resultado \<Rightarrow> (string \<times> clasificacion_resultado) list
                 \<Rightarrow> (string \<times> clasificacion_resultado) list" where
  "asignar k v [] = [(k, v)]"
| "asignar k v ((k', v') # resto) =
     (if k = k' then (k, v) # resto else (k', v') # asignar k v resto)"

fun eliminar_duplicados ::
  "clasificacion_resultado list \<Rightarrow> (string \<times> clasificacion_resultado) list
     \<Rightarrow> (string \<times> clasificacion_resultado) list" where
  "eliminar_duplicados [] unicas = unicas"
| "eliminar_duplicados (cls # resto) unicas =
     eliminar_duplicados resto
       (case map_of unicas (categoria cls) of
          None \<Rightarrow> asignar (categoria cls) cls unicas
        | Some previa \<Rightarrow>
            if confianza cls > confianza previa then asignar (categoria cls) cls unicas
            else unicas)"

text \<open>
  \<open>sorted(..., key=lambda x: x.confianza, reverse=True)\<close> is stable and keeps equal
  keys in their original order, as sorting on the negated key does.
\<close>

definition ordenar :: "clasificacion_resultado list \<Rightarrow> clasificacion_resultado list" where
  "ordenar cs = sort_key (\<lambda>x. - confianza x) cs"

text \<open>\<open>max([...], default=0.0)\<close>.\<close>

definition maximo :: "real list \<Rightarrow> real" where
  "maximo xs = (case xs of [] \<Rightarrow> 0.0 | x # resto \<Rightarrow> fold max resto x)"

definition detectar ::
  "(string \<Rightarrow> string \<Rightarrow> dato \<Rightarrow> real) \<Rightarrow> string \<Rightarrow> palabras_clave \<Rightarrow> real
     \<Rightarrow> deteccion_completa" where
  "detectar conf texto palabras umbral_confianza =
     (let texto_norm = normalizar_texto texto;
          cands = candidatos conf texto_norm umbral_confianza palabras;
          unicas = eliminar_duplicados cands [];
          finales = ordenar (map snd unicas)
      in \<lparr> texto_original = texto,
           texto_normalizado = texto_norm,
           clasificaciones = finales,
           mejor_clasificacion = (case finales of [] \<Rightarrow> None | c # _ \<Rightarrow> Some c),
           confianza_total = maximo (map confianza finales) \<rparr>)"

text \<open>
  The two public passes; they differ in the confidence computation only. The
  rounding, the taxonomy snapshot (the cached dictionary) and the threshold are
  arguments.
\<close>

definition detectar_repuestos ::
  "(real \<Rightarrow> real) \<Rightarrow> string \<Rightarrow> palabras_clave \<Rightarrow> real \<Rightarrow> deteccion_completa" where
  "detectar_repuestos rd texto palabras umbral_confianza =
     detectar (confianza_repuesto rd) texto palabras umbral_confianza"

definition detectar_trabajos ::
  "(real \<Rightarrow> real) \<Rightarrow> string \<Rightarrow> palabras_clave \<Rightarrow> real \<Rightarrow> deteccion_completa" where
  "detectar_trabajos rd texto palabras umbral_confianza =
     detectar (confianza_trabajo rd) texto palabras umbral_confianza"

subsection \<open>The audit record and \<open>guardar_clasificacion\<close>\<close>

datatype error = ErrorBaseDatos

text \<open>
  A row of \<open>clasificaciones_automaticas\<close>. The last column is the list of keyword
  lists of all surviving matches, which the source stores as its \<open>str(...)\<close>.
\<close>

record registro =
  reg_mantenimiento_id :: int
  reg_texto_original :: string
  reg_tipo :: string
  reg_categoria_detectada :: string
  reg_confianza :: real
  reg_palabras_encontradas :: "string list list"

text \<open>
  \<open>escribir\<close> stands for connecting, executing the \<open>INSERT\<close> and committing: it
  returns the store with the row added, or the error that SQLite raises. The
  source catches nothing, so the error is the result of the call. Without a best
  match the source only opens and commits the connection, and the store is
  returned as it is; the analyzer never calls it so.
\<close>

definition guardar_clasificacion ::
  "('s \<Rightarrow> registro \<Rightarrow> error + 's) \<Rightarrow> 's \<Rightarrow> int \<Rightarrow> deteccion_completa \<Rightarrow> string \<Rightarrow> error + 's" where
  "guardar_clasificacion escribir almacen mantenimiento_id deteccion tipo =
     (case mejor_clasificacion deteccion of
        None \<Rightarrow> Inr almacen
      | Some mejor \<Rightarrow>
          escribir almacen
            \<lparr> reg_mantenimiento_id = mantenimiento_id,
              reg_texto_original = texto_original deteccion,
              reg_tipo = tipo,
              reg_categoria_detectada = categoria mejor,
              reg_confianza = confianza_total deteccion,
              reg_palabras_encontradas = map palabras_encontradas (clasificaciones deteccion) \<rparr>)"

text \<open>
  Three stores for concrete runs: a list of rows, one whose writes fail, and one
  that accepts the rows of the parts pass only.
\<close>

definition escribir_lista :: "registro list \<Rightarrow> registro \<Rightarrow> error + registro list" where
  "escribir_lista almacen r = Inr (almacen @ [r])"

definition escribir_falla :: "registro list \<Rightarrow> registro \<Rightarrow> error + registro list" where
  "escribir_falla almacen r = Inl ErrorBaseDatos"

definition escribir_solo_repuestos ::
  "registro list \<Rightarrow> registro \<Rightarrow> error + registro list" where
  "escribir_solo_repuestos almacen r =
     (if reg_tipo r = ''repuesto'' then Inr (almacen @ [r]) else Inl ErrorBaseDatos)"

subsection \<open>The report of \<open>analizar_mantenimiento_completo\<close>\<close>

text \<open>
  \<open>round(x, 1)\<close>: the nearest tenth of the value of \<open>x\<close>, ties to the even one; the
  caller rounds it to a float.
\<close>

definition round1 :: "real \<Rightarrow> real" where
  "round1 x =
     (let y = x * 10; f = \<lfloor>y\<rfloor>; d = y - of_int f
      in of_int (if d < 1/2 then f else if d > 1/2 then f + 1
                 else if even f then f else f + 1) / 10)"

text \<open>\<open>str(n)\<close> of a length.\<close>

fun str_nat :: "nat \<Rightarrow> string" where
  "str_nat n =
     (if n < 10 then [char_of (48 + n)]
      else str_nat (n div 10) @ [char_of (48 + n mod 10)])"

record entrada =
  e_categoria :: string
  e_confianza :: real
  e_palabras :: "string list"
  e_color :: string

text \<open>
  The returned dictionary. The keys \<open>mejor_repuesto\<close> and \<open>mejor_trabajo\<close> are absent
  from the report of an empty description and hold a name or \<open>None\<close> otherwise.
\<close>

datatype clave = Ausente | Presente "string option"

record reporte =
  repuestos :: "entrada list"
  trabajos :: "entrada list"
  confianza_repuestos :: real
  confianza_trabajos :: real
  mejor_repuesto :: clave
  mejor_trabajo :: clave
  resumen :: string

definition reporte_vacio :: reporte where
  "reporte_vacio =
     \<lparr> repuestos = [], trabajos = [],
       confianza_repuestos = 0.0, confianza_trabajos = 0.0,
       mejor_repuesto = Ausente, mejor_trabajo = Ausente,
       resumen = ''Sin descripci'' @ [CHR 0xF3] @ ''n para analizar'' \<rparr>"

definition entrada_de :: "(real \<Rightarrow> real) \<Rightarrow> clasificacion_resultado \<Rightarrow> entrada" where
  "entrada_de rd c =
     \<lparr> e_categoria = categoria c,
       e_confianza = rd (round1 (rd (confianza c * 100))),
       e_palabras = palabras_encontradas c,
       e_color = cr_color_codigo c \<rparr>"

definition informe ::
  "(real \<Rightarrow> real) \<Rightarrow> deteccion_completa \<Rightarrow> deteccion_completa \<Rightarrow> reporte" where
  "informe rd deteccion_repuestos deteccion_trabajos =
     \<lparr> repuestos = map (entrada_de rd) (take 5 (clasificaciones deteccion_repuestos)),
       trabajos = map (entrada_de rd) (take 5 (clasificaciones deteccion_trabajos)),
       confianza_repuestos = rd (round1 (rd (confianza_total deteccion_repuestos * 100))),
       confianza_trabajos = rd (round1 (rd (confianza_total deteccion_trabajos * 100))),
       mejor_repuesto = Presente (map_option categoria (mejor_clasificacion deteccion_repuestos)),
       mejor_trabajo = Presente (map_option categoria (mejor_clasificacion deteccion_trabajos)),
       resumen = ''Detectados '' @ str_nat (length (clasificaciones deteccion_repuestos))
                 @ '' tipos de repuestos y ''
                 @ str_nat (length (clasificaciones deteccion_trabajos))
                 @ '' tipos de trabajos'' \<rparr>"

subsection \<open>Splitting the description\<close>

text \<open>
  The loop over \<open>descripcion.split('|')\<close>, with the two accumulators
  \<open>texto_repuestos\<close> and \<open>texto_trabajos\<close>.
\<close>

fun separar :: "string list \<Rightarrow> string \<times> string \<Rightarrow> string \<times> string" where
  "separar [] (texto_repuestos, texto_trabajos) = (texto_repuestos, texto_trabajos)"
| "separar (parte # partes) (texto_repuestos, texto_trabajos) =
     (let parte = strip parte
      in if prefix ''repuesto'' (lower parte)
         then separar partes (texto_repuestos @ '' '' @ parte, texto_trabajos)
         else if prefix ''trabajo'' (lower parte)
         then separar partes (texto_repuestos, texto_trabajos @ '' '' @ parte)
         else separar partes (texto_repuestos @ '' '' @ parte, texto_trabajos @ '' '' @ parte))"

subsection \<open>\<open>analizar_mantenimiento_completo\<close>\<close>

text \<open>
  \<open>descripcion\<close> and \<open>mantenimiento_id\<close> may be \<open>None\<close>. The guard
  \<open>if mantenimiento_id:\<close> tests truthiness: it fails for \<open>None\<close> and for \<open>0\<close>. Both
  passes use the default threshold, the literal \<open>0.3\<close>.
\<close>

definition analizar_mantenimiento_completo ::
  "(real \<Rightarrow> real) \<Rightarrow> ('s \<Rightarrow> registro \<Rightarrow> error + 's) \<Rightarrow> palabras_clave \<Rightarrow> palabras_clave
     \<Rightarrow> 's \<Rightarrow> string option \<Rightarrow> int option \<Rightarrow> error + (reporte \<times> 's)" where
  "analizar_mantenimiento_completo rd escribir palabras_repuestos palabras_trabajos almacen
       descripcion mantenimiento_id =
     (case descripcion of
        None \<Rightarrow> Inr (reporte_vacio, almacen)
      | Some desc \<Rightarrow>
          (if desc = [] then Inr (reporte_vacio, almacen)
           else
             (let (texto_repuestos, texto_trabajos) = separar (split (CHR ''|'') desc) ([], []);
                  deteccion_repuestos = detectar_repuestos rd texto_repuestos palabras_repuestos (rd 0.3);
                  deteccion_trabajos = detectar_trabajos rd texto_trabajos palabras_trabajos (rd 0.3)
              in (case mantenimiento_id of
                    None \<Rightarrow> Inr (informe rd deteccion_repuestos deteccion_trabajos, almacen)
                  | Some n \<Rightarrow>
                      (if n = 0 then Inr (informe rd deteccion_repuestos deteccion_trabajos, almacen)
                       else
                         (case (if mejor_clasificacion deteccion_repuestos \<noteq> None
                                then guardar_clasificacion escribir almacen n
                                       deteccion_repuestos ''repuesto''
                                else Inr almacen) of
                            Inl e \<Rightarrow> Inl e
                          | Inr almacen1 \<Rightarrow>
                              (case (if mejor_clasificacion deteccion_trabajos \<noteq> None
                                     then guardar_clasificacion escribir almacen1 n
                                            deteccion_trabajos ''trabajo''
                                     else Inr almacen1) of
                                 Inl e \<Rightarrow> Inl e
                               | Inr almacen2 \<Rightarrow>
                                   Inr (informe rd deteccion_repuestos deteccion_trabajos,
                                        almacen2))))))))"

text \<open>
  The confidence of step 3 of the specification's classifier, written from its
  words (root category \<open>1.1\<close>, otherwise \<open>0.9\<close>), for comparison with the code.
\<close>

definition confianza_spec ::
  "(real \<Rightarrow> real) \<Rightarrow> bool \<Rightarrow> string \<Rightarrow> string \<Rightarrow> dato \<Rightarrow> real" where
  "confianza_spec rd labor texto_norm palabra_norm d =
     (let c0 = peso d;
          c1 = (if palabra_completa palabra_norm texto_norm then rd (c0 * 1.5) else c0);
          c2 = (if es_sinonimo d then rd (c1 * rd 0.8) else c1);
          c3 = (if categoria_padre d = Nulo then rd (c2 * rd 1.1) else rd (c2 * rd 0.9));
          c4 = (if labor \<and> (case complejidad d of None \<Rightarrow> 1 | Some n \<Rightarrow> n) \<ge> 3
                then rd (c3 * rd 1.2) else c3)
      in min (rd (c4 / 2.0)) 1.0)"

subsection \<open>A small taxonomy for concrete runs\<close>

text \<open>
  Three rows as the loader's query returns them: a keyword of a root category, a
  synonym of the same category, and a keyword made of punctuation only, which the
  keyword form of the application accepts (it rejects only the empty keyword).
\<close>

definition dato_filtro :: dato where
  "dato_filtro =
     \<lparr> palabra_original = ''filtro'', peso = 1.0, es_sinonimo = False,
       palabra_principal = Nulo, categoria_id = 1, categoria_nombre = ''Filtros'',
       categoria_padre = Nulo, color_codigo = ''#007bff'', complejidad = None \<rparr>"

definition dato_filtros :: dato where
  "dato_filtros =
     \<lparr> palabra_original = ''Filtros'', peso = 0.9, es_sinonimo = True,
       palabra_principal = Texto ''filtro'', categoria_id = 1, categoria_nombre = ''Filtros'',
       categoria_padre = Nulo, color_codigo = ''#007bff'', complejidad = None \<rparr>"

definition dato_guion :: dato where
  "dato_guion =
     \<lparr> palabra_original = ''-'', peso = 1.0, es_sinonimo = False,
       palabra_principal = Nulo, categoria_id = 2, categoria_nombre = ''Varios'',
       categoria_padre = Nulo, color_codigo = ''#6c757d'', complejidad = None \<rparr>"

definition palabras_ejemplo :: palabras_clave where
  "palabras_ejemplo = cargar_palabras_clave [dato_filtro, dato_filtros] []"

definition palabras_guion :: palabras_clave where
  "palabras_guion = cargar_palabras_clave [dato_guion] []"

text \<open>
  Two roundings for concrete runs: none, and a coarse one to two decimals, which
  makes the order of the operations visible on small numbers.
\<close>

definition exacto :: "real \<Rightarrow> real" where
  "exacto x = x"

definition dos_decimales :: "real \<Rightarrow> real" where
  "dos_decimales x = of_int \<lfloor>x * 100 + 1/2\<rfloor> / 100"

section \<open>Properties\<close>

subsection \<open>Evaluation of the concrete runs\<close>

lemmas texto_defs =
  normalizar_texto_def strip_def quitar_especiales_def lower_def lower_char_def
  es_espacio_def es_palabra_def mayusculas_def minusculas_def

lemmas busqueda_defs =
  palabra_completa_def coincide_aqui_def frontera_def es_palabra_opt_def primero_def
  es_palabra_def mayusculas_def minusculas_def

lemma palabras_ejemplo_eq:
  "palabras_ejemplo = [(''filtro'', [dato_filtro]), (''filtros'', [dato_filtros])]"
  by (simp add: palabras_ejemplo_def dato_filtro_def dato_filtros_def texto_defs)

lemma palabras_guion_eq: "palabras_guion = [([], [dato_guion])]"
  by (simp add: palabras_guion_def dato_guion_def texto_defs)

lemma norm_filtros: "normalizar_texto ''filtros'' = ''filtros''"
  by (simp add: texto_defs)

lemma conf_filtro: "confianza_repuesto exacto ''filtros'' ''filtro'' dato_filtro = 9/20"
  by (simp add: confianza_repuesto_def confianza_sinonimo_def exacto_def dato_filtro_def busqueda_defs)

lemma conf_filtros: "confianza_repuesto exacto ''filtros'' ''filtros'' dato_filtros = 243/500"
  by (simp add: confianza_repuesto_def confianza_sinonimo_def exacto_def dato_filtros_def busqueda_defs)

lemma cands_03:
  "candidatos (confianza_repuesto exacto) ''filtros'' 0.3 palabras_ejemplo =
     [resultado_de dato_filtro (9/20), resultado_de dato_filtros (243/500)]"
  by (simp add: palabras_ejemplo_eq conf_filtro conf_filtros)

lemma cands_05:
  "candidatos (confianza_repuesto exacto) ''filtros'' (1/2) palabras_ejemplo = []"
  by (simp add: palabras_ejemplo_eq conf_filtro conf_filtros)

subsection \<open>The dictionary of unique classifications\<close>

lemma map_of_asignar: "map_of (asignar k v xs) = (map_of xs)(k \<mapsto> v)"
  by (induction xs) auto

lemma keys_asignar: "fst ` set (asignar k v xs) = insert k (fst ` set xs)"
  by (simp add: dom_map_of_conv_image_fst [symmetric] map_of_asignar)

lemma distinct_asignar: "distinct (map fst xs) \<Longrightarrow> distinct (map fst (asignar k v xs))"
  by (induction xs) (auto simp: keys_asignar)

lemma distinct_eliminar:
  "distinct (map fst U) \<Longrightarrow> distinct (map fst (eliminar_duplicados cs U))"
  by (induction cs arbitrary: U) (auto simp: distinct_asignar split: option.splits)

lemma keys_eliminar:
  "fst ` set (eliminar_duplicados cs U) = fst ` set U \<union> categoria ` set cs"
proof (induction cs arbitrary: U)
  case Nil
  show ?case by simp
next
  case (Cons c cs)
  show ?case
  proof (cases "map_of U (categoria c)")
    case None
    then show ?thesis by (simp add: Cons.IH keys_asignar)
  next
    case (Some previa)
    then have "categoria c \<in> fst ` set U"
      by (metis domI dom_map_of_conv_image_fst)
    then show ?thesis using Some by (auto simp add: Cons.IH keys_asignar)
  qed
qed

lemma origen_eliminar:
  "map_of (eliminar_duplicados cs U) k = Some v \<Longrightarrow>
     map_of U k = Some v \<or> (v \<in> set cs \<and> categoria v = k)"
proof (induction cs arbitrary: U)
  case Nil
  then show ?case by simp
next
  case (Cons c cs)
  from Cons.IH [OF Cons.prems [simplified]]
  show ?case
    by (auto simp: map_of_asignar split: option.splits if_splits)
qed

lemma maximo_eliminar:
  "map_of (eliminar_duplicados cs U) k = Some v \<Longrightarrow>
     (\<forall>c \<in> set cs. categoria c = k \<longrightarrow> confianza c \<le> confianza v) \<and>
     (\<forall>v0. map_of U k = Some v0 \<longrightarrow> confianza v0 \<le> confianza v)"
proof (induction cs arbitrary: U)
  case Nil
  then show ?case by simp
next
  case (Cons c cs)
  from Cons.IH [OF Cons.prems [simplified]]
  show ?case
    by (auto simp: map_of_asignar split: option.splits if_splits)
qed

lemma unicas_miembro:
  assumes "(k, v) \<in> set (eliminar_duplicados cs [])"
  shows "v \<in> set cs \<and> categoria v = k \<and>
         (\<forall>c \<in> set cs. categoria c = k \<longrightarrow> confianza c \<le> confianza v)"
proof -
  have d: "distinct (map fst (eliminar_duplicados cs []))"
    by (rule distinct_eliminar) simp
  from assms d have m: "map_of (eliminar_duplicados cs []) k = Some v"
    by simp
  from origen_eliminar [OF m] maximo_eliminar [OF m] show ?thesis
    by simp
qed

lemma categorias_unicas_fst:
  "map categoria (map snd (eliminar_duplicados cs [])) = map fst (eliminar_duplicados cs [])"
proof -
  have "\<forall>p \<in> set (eliminar_duplicados cs []). categoria (snd p) = fst p"
    using unicas_miembro [of _ _ cs] by auto
  then show ?thesis by simp
qed

subsection \<open>Candidates\<close>

lemma candidatos_dato_mono:
  "u1 \<le> u2 \<Longrightarrow> set (candidatos_dato conf t u2 k ds) \<subseteq> set (candidatos_dato conf t u1 k ds)"
  by (induction ds) (auto simp: Let_def)

lemma candidatos_mono:
  "u1 \<le> u2 \<Longrightarrow> set (candidatos conf t u2 P) \<subseteq> set (candidatos conf t u1 P)"
proof (induction P)
  case Nil
  show ?case by simp
next
  case (Cons p P)
  obtain k ds where p: "p = (k, ds)" by (cases p)
  from Cons candidatos_dato_mono [OF Cons.prems, of conf t k ds]
  show ?case unfolding p by auto
qed

lemma candidatos_dato_origen:
  "c \<in> set (candidatos_dato conf t u k ds) \<Longrightarrow>
     \<exists>d \<in> set ds. u \<le> conf t k d \<and> c = resultado_de d (conf t k d)"
  by (induction ds) (auto simp: Let_def split: if_splits)

lemma candidatos_origen:
  "c \<in> set (candidatos conf t u P) \<Longrightarrow>
     \<exists>(k, ds) \<in> set P. \<exists>d \<in> set ds.
        contiene k t \<and> u \<le> conf t k d \<and> c = resultado_de d (conf t k d)"
proof (induction P)
  case Nil
  then show ?case by simp
next
  case (Cons p P)
  obtain k ds where p: "p = (k, ds)" by (cases p)
  show ?case
  proof (cases "c \<in> set (candidatos conf t u P)")
    case True
    from Cons.IH [OF True] show ?thesis by auto
  next
    case False
    with Cons.prems p have "contiene k t" and "c \<in> set (candidatos_dato conf t u k ds)"
      by (auto split: if_splits)
    with candidatos_dato_origen [of c conf t u k ds] p show ?thesis by auto
  qed
qed

subsection \<open>One pass of the classifier\<close>

lemma clasificaciones_detectar:
  "clasificaciones (detectar conf texto P u) =
     ordenar (map snd (eliminar_duplicados (candidatos conf (normalizar_texto texto) u P) []))"
  by (simp add: detectar_def Let_def)

lemma distinct_map_ordenar:
  "distinct (map f (ordenar xs)) = distinct (map f xs)"
  by (simp add: ordenar_def distinct_map)

lemma detectar_distinct:
  "distinct (map categoria (clasificaciones (detectar conf texto P u)))"
proof -
  have "distinct (map categoria (map snd
          (eliminar_duplicados (candidatos conf (normalizar_texto texto) u P) [])))"
    unfolding categorias_unicas_fst by (rule distinct_eliminar) simp
  then show ?thesis
    unfolding clasificaciones_detectar distinct_map_ordenar .
qed

lemma detectar_miembro:
  assumes "m \<in> set (clasificaciones (detectar conf texto P u))"
  shows "m \<in> set (candidatos conf (normalizar_texto texto) u P) \<and>
         (\<forall>c \<in> set (candidatos conf (normalizar_texto texto) u P).
            categoria c = categoria m \<longrightarrow> confianza c \<le> confianza m)"
proof -
  from assms obtain k where
    "(k, m) \<in> set (eliminar_duplicados (candidatos conf (normalizar_texto texto) u P) [])"
    by (auto simp: clasificaciones_detectar ordenar_def)
  from unicas_miembro [OF this] show ?thesis by simp
qed

lemma detectar_categorias:
  "categoria ` set (clasificaciones (detectar conf texto P u)) =
     categoria ` set (candidatos conf (normalizar_texto texto) u P)"
proof -
  have "categoria ` set (clasificaciones (detectar conf texto P u)) =
        set (map categoria (map snd
          (eliminar_duplicados (candidatos conf (normalizar_texto texto) u P) [])))"
    by (simp add: clasificaciones_detectar ordenar_def image_image)
  also have "\<dots> = fst ` set (eliminar_duplicados (candidatos conf (normalizar_texto texto) u P) [])"
    by (simp only: categorias_unicas_fst set_map)
  also have "\<dots> = categoria ` set (candidatos conf (normalizar_texto texto) u P)"
    by (simp add: keys_eliminar)
  finally show ?thesis .
qed

lemma detectar_length:
  "length (clasificaciones (detectar conf texto P u)) =
     card (categoria ` set (candidatos conf (normalizar_texto texto) u P))"
proof -
  have "length (clasificaciones (detectar conf texto P u)) =
        length (map categoria (clasificaciones (detectar conf texto P u)))"
    by simp
  also have "\<dots> = card (set (map categoria (clasificaciones (detectar conf texto P u))))"
    by (rule distinct_card [symmetric]) (rule detectar_distinct)
  also have "\<dots> = card (categoria ` set (candidatos conf (normalizar_texto texto) u P))"
    by (simp add: detectar_categorias)
  finally show ?thesis .
qed

lemma detectar_umbral_mono:
  assumes "u1 \<le> u2"
  shows "length (clasificaciones (detectar conf texto P u2)) \<le>
         length (clasificaciones (detectar conf texto P u1))"
proof -
  have "categoria ` set (candidatos conf (normalizar_texto texto) u2 P) \<subseteq>
        categoria ` set (candidatos conf (normalizar_texto texto) u1 P)"
    by (rule image_mono) (rule candidatos_mono [OF assms])
  then show ?thesis
    unfolding detectar_length by (intro card_mono) simp_all
qed

lemma fold_max_cota: "\<forall>y \<in> set ys. y \<le> (x::real) \<Longrightarrow> fold max ys x = x"
  by (induction ys) (auto simp: max_def)

lemma ordenar_descendente:
  "sorted_wrt (\<lambda>a b. confianza a \<ge> confianza b) (ordenar cs)"
proof -
  have "sorted (map (\<lambda>x. - confianza x) (ordenar cs))"
    unfolding ordenar_def by (rule sorted_sort_key)
  then show ?thesis by (simp add: sorted_map)
qed

lemma maximo_primero:
  assumes "sorted_wrt (\<lambda>a b. confianza a \<ge> confianza b) cs"
  shows "maximo (map confianza cs) = (case cs of [] \<Rightarrow> 0 | c # _ \<Rightarrow> confianza c)"
proof (cases cs)
  case Nil
  then show ?thesis by (simp add: maximo_def)
next
  case (Cons c rest)
  with assms have "\<forall>y \<in> set (map confianza rest). y \<le> confianza c" by auto
  from fold_max_cota [OF this] Cons show ?thesis by (simp add: maximo_def)
qed

lemma detectar_orden:
  "sorted_wrt (\<lambda>a b. confianza a \<ge> confianza b) (clasificaciones (detectar conf texto P u))"
  by (simp add: clasificaciones_detectar ordenar_descendente)

lemma detectar_mejor:
  "mejor_clasificacion (detectar conf texto P u) =
     (case clasificaciones (detectar conf texto P u) of [] \<Rightarrow> None | c # _ \<Rightarrow> Some c)"
  by (simp add: detectar_def Let_def)

lemma detectar_total:
  "confianza_total (detectar conf texto P u) =
     (case clasificaciones (detectar conf texto P u) of [] \<Rightarrow> 0 | c # _ \<Rightarrow> confianza c)"
proof -
  have "confianza_total (detectar conf texto P u) =
        maximo (map confianza (clasificaciones (detectar conf texto P u)))"
    by (simp add: detectar_def Let_def)
  with maximo_primero [OF detectar_orden [of conf texto P u]] show ?thesis by simp
qed

lemma det_03:
  "clasificaciones (detectar_repuestos exacto ''filtros'' palabras_ejemplo 0.3) =
     [resultado_de dato_filtros (243/500)]"
  by (simp add: detectar_repuestos_def clasificaciones_detectar norm_filtros cands_03
      resultado_de_def dato_filtro_def dato_filtros_def ordenar_def)

lemma det_05:
  "clasificaciones (detectar_repuestos exacto ''filtros'' palabras_ejemplo (1/2)) = []"
  by (simp add: detectar_repuestos_def clasificaciones_detectar norm_filtros cands_05 ordenar_def)

subsection \<open>Claims about one pass\<close>

text \<open>
  Claim C5 (threshold monotonicity). For every text, taxonomy snapshot and
  thresholds \<open>t1 \<le> t2\<close>, either pass returns at most as many matches with \<open>t2\<close> as
  with \<open>t1\<close>: raising the threshold never adds a match.
\<close>

theorem umbral_monotono:
  "t1 \<le> t2 \<Longrightarrow>
     length (clasificaciones (detectar_repuestos rd texto palabras t2))
       \<le> length (clasificaciones (detectar_repuestos rd texto palabras t1)) \<and>
     length (clasificaciones (detectar_trabajos rd texto palabras t2))
       \<le> length (clasificaciones (detectar_trabajos rd texto palabras t1))"
  unfolding detectar_repuestos_def detectar_trabajos_def
  by (simp add: detectar_umbral_mono)

theorem umbral_monotono_witness:
  "(3/10 :: real) \<le> 1/2 \<and>
   length (clasificaciones (detectar_repuestos exacto ''filtros'' palabras_ejemplo (1/2))) = 0 \<and>
   length (clasificaciones (detectar_repuestos exacto ''filtros'' palabras_ejemplo (3/10))) = 1 \<and>
   length (clasificaciones (detectar_repuestos exacto ''filtros'' palabras_ejemplo (1/2)))
     \<le> length (clasificaciones (detectar_repuestos exacto ''filtros'' palabras_ejemplo (3/10)))"
  using umbral_monotono [of "3/10" "1/2" exacto "''filtros''" palabras_ejemplo] det_03 det_05
  by simp

text \<open>
  Claim C6 (per-category uniqueness). In the result of either pass no two matches
  share a category name; the categories of the result are exactly those of the
  candidates that cleared the threshold; and the match kept for a category is one
  of its candidates, with a confidence no candidate of that category exceeds.
\<close>

theorem una_clasificacion_por_categoria:
  "distinct (map categoria (clasificaciones (detectar_repuestos rd texto palabras u))) \<and>
   distinct (map categoria (clasificaciones (detectar_trabajos rd texto palabras u))) \<and>
   categoria ` set (clasificaciones (detectar_repuestos rd texto palabras u)) =
     categoria ` set (candidatos (confianza_repuesto rd) (normalizar_texto texto) u palabras) \<and>
   categoria ` set (clasificaciones (detectar_trabajos rd texto palabras u)) =
     categoria ` set (candidatos (confianza_trabajo rd) (normalizar_texto texto) u palabras) \<and>
   (\<forall>m \<in> set (clasificaciones (detectar_repuestos rd texto palabras u)).
      m \<in> set (candidatos (confianza_repuesto rd) (normalizar_texto texto) u palabras) \<and>
      (\<forall>c \<in> set (candidatos (confianza_repuesto rd) (normalizar_texto texto) u palabras).
         categoria c = categoria m \<longrightarrow> confianza c \<le> confianza m)) \<and>
   (\<forall>m \<in> set (clasificaciones (detectar_trabajos rd texto palabras u)).
      m \<in> set (candidatos (confianza_trabajo rd) (normalizar_texto texto) u palabras) \<and>
      (\<forall>c \<in> set (candidatos (confianza_trabajo rd) (normalizar_texto texto) u palabras).
         categoria c = categoria m \<longrightarrow> confianza c \<le> confianza m))"
  unfolding detectar_repuestos_def detectar_trabajos_def
  using detectar_miembro [of _ "confianza_repuesto rd" texto palabras u]
        detectar_miembro [of _ "confianza_trabajo rd" texto palabras u]
  by (simp add: detectar_distinct detectar_categorias)

theorem una_clasificacion_por_categoria_witness:
  "candidatos (confianza_repuesto exacto) (normalizar_texto ''filtros'') (3/10) palabras_ejemplo =
     [resultado_de dato_filtro (9/20), resultado_de dato_filtros (243/500)] \<and>
   categoria (resultado_de dato_filtro (9/20)) = categoria (resultado_de dato_filtros (243/500)) \<and>
   clasificaciones (detectar_repuestos exacto ''filtros'' palabras_ejemplo (3/10)) =
     [resultado_de dato_filtros (243/500)] \<and>
   distinct (map categoria (clasificaciones (detectar_repuestos exacto ''filtros'' palabras_ejemplo (3/10)))) \<and>
   confianza (resultado_de dato_filtro (9/20)) \<le> confianza (resultado_de dato_filtros (243/500))"
  using una_clasificacion_por_categoria [of exacto "''filtros''" palabras_ejemplo "3/10"]
    det_03 cands_03 norm_filtros
  by (simp add: resultado_de_def)

text \<open>
  Claim C7 (ranking order). In the result of either pass the matches are in
  non-increasing order of confidence, the overall confidence is that of the first
  match, or \<open>0\<close> for an empty list, and the best match is the first one, if any.
\<close>

theorem orden_y_confianza_total:
  "sorted_wrt (\<lambda>a b. confianza a \<ge> confianza b)
     (clasificaciones (detectar_repuestos rd texto palabras u)) \<and>
   sorted_wrt (\<lambda>a b. confianza a \<ge> confianza b)
     (clasificaciones (detectar_trabajos rd texto palabras u)) \<and>
   confianza_total (detectar_repuestos rd texto palabras u) =
     (case clasificaciones (detectar_repuestos rd texto palabras u) of
        [] \<Rightarrow> 0 | c # _ \<Rightarrow> confianza c) \<and>
   confianza_total (detectar_trabajos rd texto palabras u) =
     (case clasificaciones (detectar_trabajos rd texto palabras u) of
        [] \<Rightarrow> 0 | c # _ \<Rightarrow> confianza c) \<and>
   mejor_clasificacion (detectar_repuestos rd texto palabras u) =
     (case clasificaciones (detectar_repuestos rd texto palabras u) of
        [] \<Rightarrow> None | c # _ \<Rightarrow> Some c) \<and>
   mejor_clasificacion (detectar_trabajos rd texto palabras u) =
     (case clasificaciones (detectar_trabajos rd texto palabras u) of
        [] \<Rightarrow> None | c # _ \<Rightarrow> Some c)"
  unfolding detectar_repuestos_def detectar_trabajos_def
  using detectar_total [of "confianza_repuesto rd" texto palabras u]
        detectar_total [of "confianza_trabajo rd" texto palabras u]
        detectar_mejor [of "confianza_repuesto rd" texto palabras u]
        detectar_mejor [of "confianza_trabajo rd" texto palabras u]
  by (simp add: detectar_orden)

theorem orden_y_confianza_total_witness:
  "confianza_total (detectar_repuestos exacto ''filtros'' palabras_ejemplo (3/10)) = 243/500 \<and>
   mejor_clasificacion (detectar_repuestos exacto ''filtros'' palabras_ejemplo (3/10)) =
     Some (resultado_de dato_filtros (243/500)) \<and>
   confianza_total (detectar_repuestos exacto ''filtros'' palabras_ejemplo (1/2)) = 0 \<and>
   mejor_clasificacion (detectar_repuestos exacto ''filtros'' palabras_ejemplo (1/2)) = None"
  using orden_y_confianza_total [of exacto "''filtros''" palabras_ejemplo "3/10"]
        orden_y_confianza_total [of exacto "''filtros''" palabras_ejemplo "1/2"]
        det_03 det_05
  by (simp add: resultado_de_def)

text \<open>
  Claim C9 (one keyword per match). Every match of a result is the candidate built
  from a single taxonomy entry whose keyword occurs in the normalised text and
  whose confidence cleared the threshold; its keyword list has exactly one element,
  the original keyword of that entry. Keywords of other candidates of the same
  category are not merged into it.
\<close>

theorem una_palabra_por_clasificacion:
  "(\<forall>m \<in> set (clasificaciones (detectar_repuestos rd texto palabras u)).
      length (palabras_encontradas m) = 1 \<and>
      (\<exists>(k, ds) \<in> set palabras. \<exists>d \<in> set ds.
         contiene k (normalizar_texto texto) \<and>
         u \<le> confianza_repuesto rd (normalizar_texto texto) k d \<and>
         m = resultado_de d (confianza_repuesto rd (normalizar_texto texto) k d) \<and>
         palabras_encontradas m = [palabra_original d])) \<and>
   (\<forall>m \<in> set (clasificaciones (detectar_trabajos rd texto palabras u)).
      length (palabras_encontradas m) = 1 \<and>
      (\<exists>(k, ds) \<in> set palabras. \<exists>d \<in> set ds.
         contiene k (normalizar_texto texto) \<and>
         u \<le> confianza_trabajo rd (normalizar_texto texto) k d \<and>
         m = resultado_de d (confianza_trabajo rd (normalizar_texto texto) k d) \<and>
         palabras_encontradas m = [palabra_original d]))"
proof -
  have gen: "length (palabras_encontradas m) = 1 \<and>
      (\<exists>(k, ds) \<in> set palabras. \<exists>d \<in> set ds.
         contiene k (normalizar_texto texto) \<and>
         u \<le> conf (normalizar_texto texto) k d \<and>
         m = resultado_de d (conf (normalizar_texto texto) k d) \<and>
         palabras_encontradas m = [palabra_original d])"
    if "m \<in> set (clasificaciones (detectar conf texto palabras u))" for m conf
  proof -
    from detectar_miembro [OF that]
    have "m \<in> set (candidatos conf (normalizar_texto texto) u palabras)" by simp
    from candidatos_origen [OF this] obtain k ds d where
      kd: "(k, ds) \<in> set palabras" "d \<in> set ds" "contiene k (normalizar_texto texto)"
          "u \<le> conf (normalizar_texto texto) k d"
          "m = resultado_de d (conf (normalizar_texto texto) k d)"
      by auto
    then have pe: "palabras_encontradas m = [palabra_original d]"
      by (simp add: resultado_de_def)
    with kd show ?thesis by force
  qed
  show ?thesis
    unfolding detectar_repuestos_def detectar_trabajos_def
    using gen [of _ "confianza_repuesto rd"] gen [of _ "confianza_trabajo rd"] by blast
qed

theorem una_palabra_por_clasificacion_witness:
  "set (candidatos (confianza_repuesto exacto) (normalizar_texto ''filtros'') (3/10) palabras_ejemplo) =
     {resultado_de dato_filtro (9/20), resultado_de dato_filtros (243/500)} \<and>
   resultado_de dato_filtros (243/500)
     \<in> set (clasificaciones (detectar_repuestos exacto ''filtros'' palabras_ejemplo (3/10))) \<and>
   palabras_encontradas (resultado_de dato_filtros (243/500)) = [''Filtros''] \<and>
   length (palabras_encontradas (resultado_de dato_filtros (243/500))) = 1"
  using una_palabra_por_clasificacion [of exacto "''filtros''" palabras_ejemplo "3/10"]
    det_03 cands_03 norm_filtros
  by (simp add: resultado_de_def dato_filtros_def)

subsection \<open>The confidence of a matched entry\<close>

lemma detectar_confianza_origen:
  assumes "m \<in> set (clasificaciones (detectar conf texto palabras u))"
  shows "\<exists>(k, ds) \<in> set palabras. \<exists>d \<in> set ds.
           contiene k (normalizar_texto texto) \<and> categoria m = categoria_nombre d \<and>
           confianza m = conf (normalizar_texto texto) k d"
proof -
  from detectar_miembro [OF assms]
  have "m \<in> set (candidatos conf (normalizar_texto texto) u palabras)" by simp
  from candidatos_origen [OF this] show ?thesis
    by (fastforce simp: resultado_de_def)
qed

text \<open>
  Claim C1, as stated, fails: the specification multiplies by \<open>1.1\<close> for a root
  category and by \<open>0.9\<close> otherwise; the code does the opposite, as its comment
  announces (a bonus for specific, non-parent categories). For the root entry
  \<open>dato_filtro\<close> matched as a whole word, in exact arithmetic, the code gives
  \<open>1 * 1.5 * 0.9 / 2\<close>, the specification \<open>1 * 1.5 * 1.1 / 2\<close>.
\<close>

theorem factor_categoria_raiz_counterexample:
  "categoria_padre dato_filtro = Nulo \<and>
   confianza_repuesto exacto ''filtro'' ''filtro'' dato_filtro = 27/40 \<and>
   confianza_trabajo exacto ''filtro'' ''filtro'' dato_filtro = 27/40 \<and>
   confianza_spec exacto False ''filtro'' ''filtro'' dato_filtro = 33/40 \<and>
   confianza_spec exacto True ''filtro'' ''filtro'' dato_filtro = 33/40 \<and>
   confianza_repuesto exacto ''filtro'' ''filtro'' dato_filtro
     \<noteq> confianza_spec exacto False ''filtro'' ''filtro'' dato_filtro \<and>
   confianza_trabajo exacto ''filtro'' ''filtro'' dato_filtro
     \<noteq> confianza_spec exacto True ''filtro'' ''filtro'' dato_filtro"
  by (simp add: confianza_repuesto_def confianza_trabajo_def confianza_sinonimo_def
      confianza_spec_def exacto_def dato_filtro_def busqueda_defs)

text \<open>
  Claim C1, amended. For every matched entry, with \<open>c\<close> the confidence after the
  whole-word bonus and the synonym penalty: the next operation multiplies \<open>c\<close> by
  \<open>1.1\<close> when the entry has a parent category (a truthy \<open>categoria_padre\<close>) and by
  \<open>0.9\<close> when it has none (null, or falsy); the labour pass then multiplies that
  product by \<open>1.2\<close> when the complexity is at least \<open>3\<close>; the result is divided by
  \<open>2.0\<close> and capped at \<open>1\<close>. Each operation is rounded, so the place of the parent
  factor in the sequence is part of the statement. The confidence of every match
  that a pass returns is this value for an entry whose keyword occurs in the
  normalised text.
\<close>

theorem factor_categoria_padre:
  "confianza_sinonimo rd t k d =
     (if es_sinonimo d
      then rd ((if palabra_completa k t then rd (peso d * 1.5) else peso d) * rd 0.8)
      else (if palabra_completa k t then rd (peso d * 1.5) else peso d)) \<and>
   confianza_repuesto rd t k d =
     min (rd (rd (confianza_sinonimo rd t k d
                  * (if verdadero (categoria_padre d) then rd 1.1 else rd 0.9)) / 2)) 1 \<and>
   confianza_trabajo rd t k d =
     min (rd ((if 3 \<le> (case complejidad d of None \<Rightarrow> 1 | Some n \<Rightarrow> n)
               then rd (rd (confianza_sinonimo rd t k d
                            * (if verdadero (categoria_padre d) then rd 1.1 else rd 0.9))
                        * rd 1.2)
               else rd (confianza_sinonimo rd t k d
                        * (if verdadero (categoria_padre d) then rd 1.1 else rd 0.9))) / 2)) 1 \<and>
   confianza_repuesto rd t k (d\<lparr>categoria_padre := Nulo\<rparr>) =
     min (rd (rd (confianza_sinonimo rd t k d * rd 0.9) / 2)) 1 \<and>
   confianza_trabajo rd t k (d\<lparr>categoria_padre := Nulo\<rparr>) =
     min (rd ((if 3 \<le> (case complejidad d of None \<Rightarrow> 1 | Some n \<Rightarrow> n)
               then rd (rd (confianza_sinonimo rd t k d * rd 0.9) * rd 1.2)
               else rd (confianza_sinonimo rd t k d * rd 0.9)) / 2)) 1 \<and>
   (\<forall>m \<in> set (clasificaciones (detectar_repuestos rd texto palabras u)).
      \<exists>(k, ds) \<in> set palabras. \<exists>d \<in> set ds.
        contiene k (normalizar_texto texto) \<and> categoria m = categoria_nombre d \<and>
        confianza m = confianza_repuesto rd (normalizar_texto texto) k d) \<and>
   (\<forall>m \<in> set (clasificaciones (detectar_trabajos rd texto palabras u)).
      \<exists>(k, ds) \<in> set palabras. \<exists>d \<in> set ds.
        contiene k (normalizar_texto texto) \<and> categoria m = categoria_nombre d \<and>
        confianza m = confianza_trabajo rd (normalizar_texto texto) k d)"
proof -
  have sin: "confianza_sinonimo rd t k d =
     (if es_sinonimo d
      then rd ((if palabra_completa k t then rd (peso d * 1.5) else peso d) * rd 0.8)
      else (if palabra_completa k t then rd (peso d * 1.5) else peso d))"
    by (simp add: confianza_sinonimo_def Let_def)
  have formulas: "confianza_repuesto rd t k d =
     min (rd (rd (confianza_sinonimo rd t k d
                  * (if verdadero (categoria_padre d) then rd 1.1 else rd 0.9)) / 2)) 1"
    "confianza_trabajo rd t k d =
     min (rd ((if 3 \<le> (case complejidad d of None \<Rightarrow> 1 | Some n \<Rightarrow> n)
               then rd (rd (confianza_sinonimo rd t k d
                            * (if verdadero (categoria_padre d) then rd 1.1 else rd 0.9))
                        * rd 1.2)
               else rd (confianza_sinonimo rd t k d
                        * (if verdadero (categoria_padre d) then rd 1.1 else rd 0.9))) / 2)) 1"
    for d
    by (simp_all add: confianza_repuesto_def confianza_trabajo_def Let_def)
  have raiz: "verdadero (categoria_padre (d\<lparr>categoria_padre := Nulo\<rparr>)) = False"
    "complejidad (d\<lparr>categoria_padre := Nulo\<rparr>) = complejidad d"
    "confianza_sinonimo rd t k (d\<lparr>categoria_padre := Nulo\<rparr>) = confianza_sinonimo rd t k d"
    by (simp_all add: confianza_sinonimo_def)
  have salida: "\<exists>(k, ds) \<in> set palabras. \<exists>d \<in> set ds.
        contiene k (normalizar_texto texto) \<and> categoria m = categoria_nombre d \<and>
        confianza m = conf (normalizar_texto texto) k d"
    if "m \<in> set (clasificaciones (detectar conf texto palabras u))" for m conf
    using that by (rule detectar_confianza_origen)
  have raices: "confianza_repuesto rd t k (d\<lparr>categoria_padre := Nulo\<rparr>) =
       min (rd (rd (confianza_sinonimo rd t k d * rd 0.9) / 2)) 1"
    "confianza_trabajo rd t k (d\<lparr>categoria_padre := Nulo\<rparr>) =
       min (rd ((if 3 \<le> (case complejidad d of None \<Rightarrow> 1 | Some n \<Rightarrow> n)
                 then rd (rd (confianza_sinonimo rd t k d * rd 0.9) * rd 1.2)
                 else rd (confianza_sinonimo rd t k d * rd 0.9)) / 2)) 1"
    unfolding formulas [of "d\<lparr>categoria_padre := Nulo\<rparr>"] raiz by simp_all
  show ?thesis
    unfolding detectar_repuestos_def detectar_trabajos_def
    using sin formulas [of d] raices
          salida [of _ "confianza_repuesto rd"] salida [of _ "confianza_trabajo rd"]
    by blast
qed

theorem factor_categoria_padre_witness:
  "confianza_repuesto exacto ''filtro'' ''filtro'' dato_filtro = 27/40 \<and>
   confianza_repuesto exacto ''filtro'' ''filtro'' (dato_filtro\<lparr>categoria_padre := Entero 4\<rparr>)
     = 33/40 \<and>
   confianza_sinonimo dos_decimales ''filtro'' ''filtro'' (dato_filtro\<lparr>peso := 1/4\<rparr>) = 19/50 \<and>
   confianza_repuesto dos_decimales ''filtro'' ''filtro'' (dato_filtro\<lparr>peso := 1/4\<rparr>) = 17/100 \<and>
   min (dos_decimales (dos_decimales (dos_decimales (1/4 * dos_decimales 0.9) * 1.5) / 2)) 1
     = 9/50 \<and>
   clasificaciones (detectar_repuestos exacto ''filtros'' palabras_ejemplo (3/10)) =
     [resultado_de dato_filtros (243/500)] \<and>
   confianza (resultado_de dato_filtros (243/500)) =
     confianza_repuesto exacto (normalizar_texto ''filtros'') ''filtros'' dato_filtros"
proof -
  have pc: "palabra_completa ''filtro'' ''filtro''"
    by (simp add: busqueda_defs)
  from factor_categoria_padre
         [of exacto "''filtro''" "''filtro''" dato_filtro "''filtros''" palabras_ejemplo "3/10"]
  have a: "confianza_repuesto exacto ''filtro'' ''filtro'' dato_filtro = 27/40"
    by (simp add: pc dato_filtro_def exacto_def)
  from factor_categoria_padre
         [of exacto "''filtro''" "''filtro''" "dato_filtro\<lparr>categoria_padre := Entero 4\<rparr>"
             "''filtros''" palabras_ejemplo "3/10"]
  have b: "confianza_repuesto exacto ''filtro'' ''filtro''
             (dato_filtro\<lparr>categoria_padre := Entero 4\<rparr>) = 33/40"
    by (simp add: pc dato_filtro_def exacto_def)
  note t = factor_categoria_padre
         [of dos_decimales "''filtro''" "''filtro''" "dato_filtro\<lparr>peso := 1/4\<rparr>"
             "''filtros''" palabras_ejemplo "3/10"]
  have c: "confianza_sinonimo dos_decimales ''filtro'' ''filtro'' (dato_filtro\<lparr>peso := 1/4\<rparr>)
             = 19/50"
    unfolding t [THEN conjunct1]
    by (simp add: pc dato_filtro_def dos_decimales_def)
  have d: "confianza_repuesto dos_decimales ''filtro'' ''filtro'' (dato_filtro\<lparr>peso := 1/4\<rparr>)
             = 17/100"
    unfolding t [THEN conjunct2, THEN conjunct1] c
    by (simp add: dato_filtro_def dos_decimales_def)
  have e: "min (dos_decimales (dos_decimales (dos_decimales (1/4 * dos_decimales 0.9) * 1.5) / 2)) 1
             = (9/50 :: real)"
    by (simp add: dos_decimales_def)
  from a b c d e det_03 norm_filtros conf_filtros show ?thesis
    by (simp add: resultado_de_def)
qed

subsection \<open>Normalisation\<close>

text \<open>
  Claim C2 (idempotent normalisation) does not hold of the code: punctuation is
  replaced by spaces after the runs of whitespace have been collapsed, so the
  result can contain two adjacent spaces, which a second normalisation collapses.
\<close>

theorem normalizar_texto_no_idempotente:
  "normalizar_texto ''a, b'' = ''a  b'' \<and>
   normalizar_texto (normalizar_texto ''a, b'') = ''a b'' \<and>
   normalizar_texto (normalizar_texto ''a, b'') \<noteq> normalizar_texto ''a, b''"
  by (simp add: texto_defs)

subsection \<open>The analyzer and the audit store\<close>

lemma norm_sp_filtros: "normalizar_texto '' filtros'' = ''filtros''"
  by (simp add: texto_defs)

lemma conf_trab_filtro: "confianza_trabajo exacto ''filtros'' ''filtro'' dato_filtro = 9/20"
  by (simp add: confianza_trabajo_def confianza_sinonimo_def exacto_def dato_filtro_def busqueda_defs)

lemma conf_trab_filtros: "confianza_trabajo exacto ''filtros'' ''filtros'' dato_filtros = 243/500"
  by (simp add: confianza_trabajo_def confianza_sinonimo_def exacto_def dato_filtros_def busqueda_defs)

lemma det_rep_filtros:
  "detectar_repuestos exacto '' filtros'' palabras_ejemplo (3/10) =
     \<lparr> texto_original = '' filtros'', texto_normalizado = ''filtros'',
       clasificaciones = [resultado_de dato_filtros (243/500)],
       mejor_clasificacion = Some (resultado_de dato_filtros (243/500)),
       confianza_total = 243/500 \<rparr>"
  unfolding detectar_repuestos_def detectar_def Let_def norm_sp_filtros cands_03
  by (simp add: resultado_de_def dato_filtro_def dato_filtros_def ordenar_def maximo_def)

lemma cands_trab_03:
  "candidatos (confianza_trabajo exacto) ''filtros'' 0.3 palabras_ejemplo =
     [resultado_de dato_filtro (9/20), resultado_de dato_filtros (243/500)]"
  by (simp add: palabras_ejemplo_eq conf_trab_filtro conf_trab_filtros)

lemma det_trab_filtros:
  "detectar_trabajos exacto '' filtros'' palabras_ejemplo (3/10) =
     \<lparr> texto_original = '' filtros'', texto_normalizado = ''filtros'',
       clasificaciones = [resultado_de dato_filtros (243/500)],
       mejor_clasificacion = Some (resultado_de dato_filtros (243/500)),
       confianza_total = 243/500 \<rparr>"
  unfolding detectar_trabajos_def detectar_def Let_def norm_sp_filtros cands_trab_03
  by (simp add: resultado_de_def dato_filtro_def dato_filtros_def ordenar_def maximo_def)

lemma separar_filtros:
  "separar (split (CHR ''|'') ''filtros'') ([], []) = ('' filtros'', '' filtros'')"
  by (simp add: split_def strip_def lower_def lower_char_def es_espacio_def
      mayusculas_def minusculas_def Let_def)

lemma analizar_falla_filtros:
  "analizar_mantenimiento_completo exacto escribir_falla palabras_ejemplo palabras_ejemplo []
     (Some ''filtros'') (Some 7) = Inl ErrorBaseDatos"
  by (simp add: analizar_mantenimiento_completo_def separar_filtros exacto_def
      det_rep_filtros det_trab_filtros guardar_clasificacion_def escribir_falla_def)

lemma analizar_sin_id_filtros:
  "analizar_mantenimiento_completo exacto escribir palabras_ejemplo palabras_ejemplo almacen
     (Some ''filtros'') None =
   Inr (informe exacto (detectar_repuestos exacto '' filtros'' palabras_ejemplo (3/10))
                (detectar_trabajos exacto '' filtros'' palabras_ejemplo (3/10)), almacen)"
  by (simp add: analizar_mantenimiento_completo_def separar_filtros exacto_def)

lemma analizar_lista_filtros:
  "analizar_mantenimiento_completo exacto escribir_lista palabras_ejemplo palabras_ejemplo []
     (Some ''filtros'') (Some 7) =
   Inr (informe exacto (detectar_repuestos exacto '' filtros'' palabras_ejemplo (3/10))
                (detectar_trabajos exacto '' filtros'' palabras_ejemplo (3/10)),
        [\<lparr> reg_mantenimiento_id = 7, reg_texto_original = '' filtros'',
            reg_tipo = ''repuesto'', reg_categoria_detectada = ''Filtros'',
            reg_confianza = 243/500, reg_palabras_encontradas = [[''Filtros'']] \<rparr>,
         \<lparr> reg_mantenimiento_id = 7, reg_texto_original = '' filtros'',
            reg_tipo = ''trabajo'', reg_categoria_detectada = ''Filtros'',
            reg_confianza = 243/500, reg_palabras_encontradas = [[''Filtros'']] \<rparr>])"
  by (simp add: analizar_mantenimiento_completo_def separar_filtros exacto_def
      det_rep_filtros det_trab_filtros guardar_clasificacion_def escribir_lista_def
      resultado_de_def dato_filtros_def Let_def)

lemma analizar_Some:
  "desc \<noteq> [] \<Longrightarrow>
   analizar_mantenimiento_completo rd escribir pr pt almacen (Some desc) ident =
     (case ident of
        None \<Rightarrow>
          Inr (informe rd
                 (detectar_repuestos rd (fst (separar (split (CHR ''|'') desc) ([], []))) pr (rd 0.3))
                 (detectar_trabajos rd (snd (separar (split (CHR ''|'') desc) ([], []))) pt (rd 0.3)),
               almacen)
      | Some n \<Rightarrow>
          (if n = 0 then
             Inr (informe rd
                    (detectar_repuestos rd (fst (separar (split (CHR ''|'') desc) ([], []))) pr (rd 0.3))
                    (detectar_trabajos rd (snd (separar (split (CHR ''|'') desc) ([], []))) pt (rd 0.3)),
                  almacen)
           else
             (case (if mejor_clasificacion
                         (detectar_repuestos rd (fst (separar (split (CHR ''|'') desc) ([], []))) pr (rd 0.3))
                       \<noteq> None
                    then guardar_clasificacion escribir almacen n
                           (detectar_repuestos rd (fst (separar (split (CHR ''|'') desc) ([], []))) pr (rd 0.3))
                           ''repuesto''
                    else Inr almacen) of
                Inl e \<Rightarrow> Inl e
              | Inr almacen1 \<Rightarrow>
                  (case (if mejor_clasificacion
                              (detectar_trabajos rd (snd (separar (split (CHR ''|'') desc) ([], []))) pt (rd 0.3))
                            \<noteq> None
                         then guardar_clasificacion escribir almacen1 n
                                (detectar_trabajos rd (snd (separar (split (CHR ''|'') desc) ([], []))) pt (rd 0.3))
                                ''trabajo''
                         else Inr almacen1) of
                     Inl e \<Rightarrow> Inl e
                   | Inr almacen2 \<Rightarrow>
                       Inr (informe rd
                              (detectar_repuestos rd (fst (separar (split (CHR ''|'') desc) ([], []))) pr (rd 0.3))
                              (detectar_trabajos rd (snd (separar (split (CHR ''|'') desc) ([], []))) pt (rd 0.3)),
                            almacen2)))))"
  by (simp add: analizar_mantenimiento_completo_def Let_def case_prod_beta)

lemma analizar_vacio:
  "analizar_mantenimiento_completo rd escribir pr pt almacen None ident = Inr (reporte_vacio, almacen)"
  "analizar_mantenimiento_completo rd escribir pr pt almacen (Some []) ident = Inr (reporte_vacio, almacen)"
  by (simp_all add: analizar_mantenimiento_completo_def)

lemma analizar_devuelve_informe:
  assumes "analizar_mantenimiento_completo rd escribir pr pt almacen descripcion ident
             = Inr (devuelto, almacen')"
  shows "analizar_mantenimiento_completo rd escribir pr pt almacen descripcion None
             = Inr (devuelto, almacen)"
proof (cases descripcion)
  case None
  with assms show ?thesis by (simp add: analizar_vacio)
next
  case (Some desc)
  show ?thesis
  proof (cases "desc = []")
    case True
    with assms Some show ?thesis by (simp add: analizar_vacio)
  next
    case False
    from assms have "devuelto = informe rd
        (detectar_repuestos rd (fst (separar (split (CHR ''|'') desc) ([], []))) pr (rd 0.3))
        (detectar_trabajos rd (snd (separar (split (CHR ''|'') desc) ([], []))) pt (rd 0.3))"
      unfolding Some analizar_Some [OF False]
      by (simp split: option.splits if_splits sum.splits)
    then show ?thesis
      unfolding Some analizar_Some [OF False] by simp
  qed
qed

lemma analizar_escrituras:
  assumes desc: "desc \<noteq> []" and n: "n \<noteq> 0"
    and D1: "D1 = detectar_repuestos rd (fst (separar (split (CHR ''|'') desc) ([], []))) pr (rd 0.3)"
    and D2: "D2 = detectar_trabajos rd (snd (separar (split (CHR ''|'') desc) ([], []))) pt (rd 0.3)"
  shows "analizar_mantenimiento_completo rd escribir pr pt almacen (Some desc) (Some n) =
           (case (if mejor_clasificacion D1 \<noteq> None
                  then guardar_clasificacion escribir almacen n D1 ''repuesto''
                  else Inr almacen) of
              Inl e \<Rightarrow> Inl e
            | Inr almacen1 \<Rightarrow>
                (case (if mejor_clasificacion D2 \<noteq> None
                       then guardar_clasificacion escribir almacen1 n D2 ''trabajo''
                       else Inr almacen1) of
                   Inl e \<Rightarrow> Inl e
                 | Inr almacen2 \<Rightarrow> Inr (informe rd D1 D2, almacen2)))"
  unfolding analizar_Some [OF desc] D1 D2 using n by simp

lemma analizar_primera_escritura:
  assumes "desc \<noteq> []" and "n \<noteq> 0"
    and "D1 = detectar_repuestos rd (fst (separar (split (CHR ''|'') desc) ([], []))) pr (rd 0.3)"
    and "D2 = detectar_trabajos rd (snd (separar (split (CHR ''|'') desc) ([], []))) pt (rd 0.3)"
    and mejor: "mejor_clasificacion D1 \<noteq> None"
    and falla: "guardar_clasificacion escribir almacen n D1 ''repuesto'' = Inl e"
  shows "analizar_mantenimiento_completo rd escribir pr pt almacen (Some desc) (Some n) = Inl e"
  unfolding analizar_escrituras [OF assms(1-4)] using mejor falla by simp

lemma analizar_segunda_escritura:
  assumes "desc \<noteq> []" and "n \<noteq> 0"
    and "D1 = detectar_repuestos rd (fst (separar (split (CHR ''|'') desc) ([], []))) pr (rd 0.3)"
    and "D2 = detectar_trabajos rd (snd (separar (split (CHR ''|'') desc) ([], []))) pt (rd 0.3)"
    and primera: "(if mejor_clasificacion D1 \<noteq> None
                   then guardar_clasificacion escribir almacen n D1 ''repuesto''
                   else Inr almacen) = Inr almacen1"
    and mejor: "mejor_clasificacion D2 \<noteq> None"
    and falla: "guardar_clasificacion escribir almacen1 n D2 ''trabajo'' = Inl e"
  shows "analizar_mantenimiento_completo rd escribir pr pt almacen (Some desc) (Some n) = Inl e"
  unfolding analizar_escrituras [OF assms(1-4)] primera using mejor falla by simp

lemma analizar_escrituras_correctas:
  assumes "desc \<noteq> []" and "n \<noteq> 0"
    and "D1 = detectar_repuestos rd (fst (separar (split (CHR ''|'') desc) ([], []))) pr (rd 0.3)"
    and "D2 = detectar_trabajos rd (snd (separar (split (CHR ''|'') desc) ([], []))) pt (rd 0.3)"
    and primera: "(if mejor_clasificacion D1 \<noteq> None
                   then guardar_clasificacion escribir almacen n D1 ''repuesto''
                   else Inr almacen) = Inr almacen1"
    and segunda: "(if mejor_clasificacion D2 \<noteq> None
                   then guardar_clasificacion escribir almacen1 n D2 ''trabajo''
                   else Inr almacen1) = Inr almacen2"
  shows "analizar_mantenimiento_completo rd escribir pr pt almacen (Some desc) (Some n) =
           Inr (informe rd D1 D2, almacen2)"
  unfolding analizar_escrituras [OF assms(1-4)] primera using segunda by simp

lemma separar_texto_filtros:
  "fst (separar (split (CHR ''|'') ''filtros'') ([], [])) = '' filtros''"
  "snd (separar (split (CHR ''|'') ''filtros'') ([], [])) = '' filtros''"
  by (simp_all add: separar_filtros)

text \<open>
  Claim C3, as stated, fails: \<open>guardar_clasificacion\<close> and its caller catch nothing,
  so an error of the audit write is the outcome of the analysis. With a store
  whose writes fail, a record id \<open>7\<close> and a description with a match, the analysis
  raises, while without a record id it returns its report.
\<close>

theorem registro_fallido_counterexample:
  "analizar_mantenimiento_completo exacto escribir_falla palabras_ejemplo palabras_ejemplo []
     (Some ''filtros'') (Some 7) = Inl ErrorBaseDatos \<and>
   analizar_mantenimiento_completo exacto escribir_falla palabras_ejemplo palabras_ejemplo []
     (Some ''filtros'') None =
   Inr (informe exacto (detectar_repuestos exacto '' filtros'' palabras_ejemplo (3/10))
                (detectar_trabajos exacto '' filtros'' palabras_ejemplo (3/10)), []) \<and>
   analizar_mantenimiento_completo exacto escribir_falla palabras_ejemplo palabras_ejemplo []
     (Some ''filtros'') (Some 7)
   \<noteq> analizar_mantenimiento_completo exacto escribir_falla palabras_ejemplo palabras_ejemplo []
     (Some ''filtros'') None"
  by (simp add: analizar_falla_filtros analizar_sin_id_filtros)

text \<open>
  Claim C3, amended. Whenever the analysis returns, its report is the one returned
  with recording disabled (no record id), whatever the audit store does. For a
  non-empty description and a truthy record id: if the write of the parts pass is
  performed (the pass has a best match) and raises an error, the analysis raises
  that error; if that write returned or was not performed, and the write of the
  labour pass is performed and raises an error, the analysis raises that error;
  and if every write performed returned, the analysis returns the report with the
  store the writes left.
\<close>

theorem registro_fallido_se_propaga:
  "(analizar_mantenimiento_completo rd escribir pr pt almacen descripcion ident
      = Inr (devuelto, almacen') \<longrightarrow>
    analizar_mantenimiento_completo rd escribir pr pt almacen descripcion None
      = Inr (devuelto, almacen)) \<and>
   (desc \<noteq> [] \<and> n \<noteq> 0 \<and>
    D1 = detectar_repuestos rd (fst (separar (split (CHR ''|'') desc) ([], []))) pr (rd 0.3) \<and>
    D2 = detectar_trabajos rd (snd (separar (split (CHR ''|'') desc) ([], []))) pt (rd 0.3) \<longrightarrow>
      (mejor_clasificacion D1 \<noteq> None \<and>
       guardar_clasificacion escribir almacen n D1 ''repuesto'' = Inl e \<longrightarrow>
         analizar_mantenimiento_completo rd escribir pr pt almacen (Some desc) (Some n)
           = Inl e) \<and>
      ((if mejor_clasificacion D1 \<noteq> None
        then guardar_clasificacion escribir almacen n D1 ''repuesto''
        else Inr almacen) = Inr almacen1 \<and>
       mejor_clasificacion D2 \<noteq> None \<and>
       guardar_clasificacion escribir almacen1 n D2 ''trabajo'' = Inl e \<longrightarrow>
         analizar_mantenimiento_completo rd escribir pr pt almacen (Some desc) (Some n)
           = Inl e) \<and>
      ((if mejor_clasificacion D1 \<noteq> None
        then guardar_clasificacion escribir almacen n D1 ''repuesto''
        else Inr almacen) = Inr almacen1 \<and>
       (if mejor_clasificacion D2 \<noteq> None
        then guardar_clasificacion escribir almacen1 n D2 ''trabajo''
        else Inr almacen1) = Inr almacen2 \<longrightarrow>
         analizar_mantenimiento_completo rd escribir pr pt almacen (Some desc) (Some n)
           = Inr (informe rd D1 D2, almacen2)))"
  using analizar_devuelve_informe [of rd escribir pr pt almacen descripcion ident devuelto almacen']
        analizar_primera_escritura [of desc n D1 rd pr D2 pt escribir almacen e]
        analizar_segunda_escritura [of desc n D1 rd pr D2 pt escribir almacen almacen1 e]
        analizar_escrituras_correctas [of desc n D1 rd pr D2 pt escribir almacen almacen1 almacen2]
  by blast

theorem registro_fallido_se_propaga_witness:
  "analizar_mantenimiento_completo exacto escribir_falla palabras_ejemplo palabras_ejemplo []
     (Some ''filtros'') (Some 7) = Inl ErrorBaseDatos \<and>
   guardar_clasificacion escribir_solo_repuestos [] 7
     (detectar_repuestos exacto '' filtros'' palabras_ejemplo (3/10)) ''repuesto''
     = Inr [\<lparr> reg_mantenimiento_id = 7, reg_texto_original = '' filtros'',
              reg_tipo = ''repuesto'', reg_categoria_detectada = ''Filtros'',
              reg_confianza = 243/500, reg_palabras_encontradas = [[''Filtros'']] \<rparr>] \<and>
   analizar_mantenimiento_completo exacto escribir_solo_repuestos palabras_ejemplo palabras_ejemplo []
     (Some ''filtros'') (Some 7) = Inl ErrorBaseDatos \<and>
   analizar_mantenimiento_completo exacto escribir_lista palabras_ejemplo palabras_ejemplo []
     (Some ''filtros'') None =
   Inr (informe exacto (detectar_repuestos exacto '' filtros'' palabras_ejemplo (3/10))
                (detectar_trabajos exacto '' filtros'' palabras_ejemplo (3/10)), [])"
proof -
  let ?D1 = "detectar_repuestos exacto '' filtros'' palabras_ejemplo (3/10)"
  let ?D2 = "detectar_trabajos exacto '' filtros'' palabras_ejemplo (3/10)"
  let ?fila = "\<lparr> reg_mantenimiento_id = 7, reg_texto_original = '' filtros'',
                  reg_tipo = ''repuesto'', reg_categoria_detectada = ''Filtros'',
                  reg_confianza = 243/500, reg_palabras_encontradas = [[''Filtros'']] \<rparr>"
  have desc: "''filtros'' \<noteq> []" and n: "(7::int) \<noteq> 0" by simp_all
  have D1: "?D1 = detectar_repuestos exacto
                    (fst (separar (split (CHR ''|'') ''filtros'') ([], [])))
                    palabras_ejemplo (exacto 0.3)"
    and D2: "?D2 = detectar_trabajos exacto
                    (snd (separar (split (CHR ''|'') ''filtros'') ([], [])))
                    palabras_ejemplo (exacto 0.3)"
    by (simp_all add: separar_texto_filtros exacto_def)
  have m1: "mejor_clasificacion ?D1 \<noteq> None" and m2: "mejor_clasificacion ?D2 \<noteq> None"
    by (simp_all add: det_rep_filtros det_trab_filtros)
  have f1: "guardar_clasificacion escribir_falla [] 7 ?D1 ''repuesto'' = Inl ErrorBaseDatos"
    by (simp add: guardar_clasificacion_def escribir_falla_def det_rep_filtros)
  have s1: "guardar_clasificacion escribir_solo_repuestos [] 7 ?D1 ''repuesto'' = Inr [?fila]"
    by (simp add: guardar_clasificacion_def escribir_solo_repuestos_def det_rep_filtros
        resultado_de_def dato_filtros_def)
  have s2: "guardar_clasificacion escribir_solo_repuestos [?fila] 7 ?D2 ''trabajo''
              = Inl ErrorBaseDatos"
    by (simp add: guardar_clasificacion_def escribir_solo_repuestos_def det_trab_filtros)
  note t = registro_fallido_se_propaga
             [where rd = exacto and pr = palabras_ejemplo and pt = palabras_ejemplo
                and almacen = "[]" and desc = "''filtros''" and n = 7
                and ?D1.0 = ?D1 and ?D2.0 = ?D2 and e = ErrorBaseDatos]
  from t [where escribir = escribir_falla] desc n D1 D2 m1 f1
  have a: "analizar_mantenimiento_completo exacto escribir_falla palabras_ejemplo
             palabras_ejemplo [] (Some ''filtros'') (Some 7) = Inl ErrorBaseDatos"
    by blast
  from t [where escribir = escribir_solo_repuestos and ?almacen1.0 = "[?fila]"]
       desc n D1 D2 m1 m2 s1 s2
  have b: "analizar_mantenimiento_completo exacto escribir_solo_repuestos palabras_ejemplo
             palabras_ejemplo [] (Some ''filtros'') (Some 7) = Inl ErrorBaseDatos"
    by simp
  from t [where escribir = escribir_lista and descripcion = "Some ''filtros''"
            and ident = "Some 7"
            and devuelto = "informe exacto ?D1 ?D2"]
       analizar_lista_filtros
  have c: "analizar_mantenimiento_completo exacto escribir_lista palabras_ejemplo
             palabras_ejemplo [] (Some ''filtros'') None = Inr (informe exacto ?D1 ?D2, [])"
    by simp
  from a s1 b c show ?thesis by simp
qed

text \<open>
  Claim C10 (record id \<open>0\<close>). With the record id \<open>0\<close> the analysis is the same as
  with no record id, for every store: it cannot raise, its report is the same, and
  the audit store is returned unchanged, so that no record is written.
\<close>

theorem id_cero_no_registra:
  "analizar_mantenimiento_completo rd escribir pr pt almacen descripcion (Some 0) =
     analizar_mantenimiento_completo rd escribir pr pt almacen descripcion None \<and>
   (case analizar_mantenimiento_completo rd escribir pr pt almacen descripcion (Some 0) of
      Inl e \<Rightarrow> False
    | Inr (informe_devuelto, almacen') \<Rightarrow> almacen' = almacen)"
  by (simp add: analizar_mantenimiento_completo_def Let_def split: option.splits prod.splits)

theorem id_cero_no_registra_witness:
  "analizar_mantenimiento_completo exacto escribir_lista palabras_ejemplo palabras_ejemplo []
     (Some ''filtros'') (Some 0) =
   Inr (informe exacto (detectar_repuestos exacto '' filtros'' palabras_ejemplo (3/10))
                (detectar_trabajos exacto '' filtros'' palabras_ejemplo (3/10)), [])"
  using id_cero_no_registra
          [of exacto escribir_lista palabras_ejemplo palabras_ejemplo "[]" "Some ''filtros''"]
        analizar_sin_id_filtros [of escribir_lista "[]"]
  by simp

subsection \<open>Empty input\<close>

lemma lower_char_espacio: "es_espacio c \<Longrightarrow> lower_char c = c"
  unfolding es_espacio_def lower_char_def mayusculas_def minusculas_def
  by (elim disjE | simp)+

lemma colapsar_solo_espacios:
  "\<forall>c \<in> set s. es_espacio c \<Longrightarrow> colapsar_espacios s = (if s = [] then [] else '' '')"
proof (cases s)
  case Nil
  then show ?thesis by simp
next
  case (Cons c cs)
  assume todos: "\<forall>c \<in> set s. es_espacio c"
  with Cons have dw: "dropWhile es_espacio cs = []" and c: "es_espacio c"
    by (simp_all add: dropWhile_eq_Nil_conv)
  show ?thesis unfolding Cons by (simp add: dw c)
qed

lemma normalizar_solo_espacios:
  assumes "\<forall>c \<in> set texto. es_espacio c"
  shows "normalizar_texto texto = []"
proof (cases "texto = []")
  case True
  then show ?thesis by (simp add: normalizar_texto_def)
next
  case False
  from assms have l: "lower texto = texto"
    by (simp add: lower_def lower_char_espacio map_idI)
  from assms False have "colapsar_espacios texto = '' ''"
    by (simp add: colapsar_solo_espacios)
  with l False show ?thesis
    by (simp add: normalizar_texto_def quitar_especiales_def strip_def es_espacio_def)
qed

lemma candidatos_texto_vacio:
  "[] \<notin> fst ` set palabras \<Longrightarrow> candidatos conf [] u palabras = []"
  by (induction palabras) auto

lemma detectar_texto_vacio:
  assumes "\<forall>c \<in> set texto. es_espacio c" and "[] \<notin> fst ` set palabras"
  shows "detectar conf texto palabras u =
           \<lparr> texto_original = texto, texto_normalizado = [], clasificaciones = [],
             mejor_clasificacion = None, confianza_total = 0 \<rparr>"
  by (simp add: detectar_def normalizar_solo_espacios [OF assms(1)]
      candidatos_texto_vacio [OF assms(2)] ordenar_def maximo_def)

lemma conf_guion: "confianza_repuesto exacto [] [] dato_guion = 9/20"
  by (simp add: confianza_repuesto_def confianza_sinonimo_def exacto_def dato_guion_def busqueda_defs)

text \<open>
  Claim C4, as stated, fails for some taxonomy snapshots: a keyword made of
  punctuation only, such as \<open>-\<close>, is stored under the empty string, which is a
  substring of the empty text, so the classifier returns a match for the empty
  text.
\<close>

theorem texto_vacio_counterexample:
  "palabras_guion = cargar_palabras_clave [dato_guion] [] \<and>
   palabra_original dato_guion = ''-'' \<and>
   detectar_repuestos exacto [] palabras_guion (3/10) =
     \<lparr> texto_original = [], texto_normalizado = [],
       clasificaciones = [resultado_de dato_guion (9/20)],
       mejor_clasificacion = Some (resultado_de dato_guion (9/20)),
       confianza_total = 9/20 \<rparr> \<and>
   clasificaciones (detectar_repuestos exacto [] palabras_guion (3/10)) \<noteq> []"
proof -
  have "detectar_repuestos exacto [] palabras_guion (3/10) =
     \<lparr> texto_original = [], texto_normalizado = [],
       clasificaciones = [resultado_de dato_guion (9/20)],
       mejor_clasificacion = Some (resultado_de dato_guion (9/20)),
       confianza_total = 9/20 \<rparr>"
    by (simp add: detectar_repuestos_def detectar_def Let_def normalizar_texto_def
        palabras_guion_eq conf_guion ordenar_def maximo_def resultado_de_def)
  then show ?thesis
    by (simp add: palabras_guion_def dato_guion_def)
qed

text \<open>
  Claim C4, amended. For every taxonomy snapshot in which no keyword has an empty
  normalised form, either pass on an empty or whitespace-only text returns the
  empty match list, no best match and the overall confidence \<open>0\<close>. For every
  taxonomy snapshot, the analysis of a null or empty description returns the
  report with empty lists and zero confidences. Neither raises.
\<close>

theorem texto_vacio_sin_coincidencias:
  "(\<forall>c \<in> set texto. es_espacio c) \<Longrightarrow> [] \<notin> fst ` set palabras \<Longrightarrow>
     detectar_repuestos rd texto palabras u =
       \<lparr> texto_original = texto, texto_normalizado = [], clasificaciones = [],
         mejor_clasificacion = None, confianza_total = 0 \<rparr> \<and>
     detectar_trabajos rd texto palabras u =
       \<lparr> texto_original = texto, texto_normalizado = [], clasificaciones = [],
         mejor_clasificacion = None, confianza_total = 0 \<rparr> \<and>
     analizar_mantenimiento_completo rd escribir pr pt almacen None ident
       = Inr (reporte_vacio, almacen) \<and>
     analizar_mantenimiento_completo rd escribir pr pt almacen (Some []) ident
       = Inr (reporte_vacio, almacen) \<and>
     repuestos reporte_vacio = [] \<and> trabajos reporte_vacio = [] \<and>
     confianza_repuestos reporte_vacio = 0 \<and> confianza_trabajos reporte_vacio = 0"
  unfolding detectar_repuestos_def detectar_trabajos_def
  by (simp add: detectar_texto_vacio analizar_vacio reporte_vacio_def)

theorem texto_vacio_sin_coincidencias_witness:
  "detectar_repuestos exacto ''  '' palabras_ejemplo (3/10) =
     \<lparr> texto_original = ''  '', texto_normalizado = [], clasificaciones = [],
       mejor_clasificacion = None, confianza_total = 0 \<rparr> \<and>
   detectar_trabajos exacto [] palabras_ejemplo (3/10) =
     \<lparr> texto_original = [], texto_normalizado = [], clasificaciones = [],
       mejor_clasificacion = None, confianza_total = 0 \<rparr> \<and>
   analizar_mantenimiento_completo exacto escribir_falla palabras_guion palabras_guion [] None (Some 7)
     = Inr (reporte_vacio, [])"
proof -
  have e: "\<forall>c \<in> set ''  ''. es_espacio c" by (simp add: es_espacio_def)
  have k: "[] \<notin> fst ` set palabras_ejemplo" by (simp add: palabras_ejemplo_eq)
  have v: "\<forall>c \<in> set []. es_espacio c" by simp
  from texto_vacio_sin_coincidencias
         [OF e k, of exacto "3/10" escribir_falla palabras_guion palabras_guion "[]" "Some 7"]
       texto_vacio_sin_coincidencias
         [OF v k, of exacto "3/10" escribir_falla palabras_guion palabras_guion "[]" "Some 7"]
  show ?thesis by simp
qed

subsection \<open>Splitting the description into segments\<close>

lemma etiquetas_disjuntas: "prefix ''repuesto'' s \<Longrightarrow> \<not> prefix ''trabajo'' s"
  by (cases s) auto

lemma separar_acumula:
  "separar partes (r, t) =
     (r @ concat (map (\<lambda>p. '' '' @ p)
            (filter (\<lambda>p. prefix ''repuesto'' (lower p) \<or>
                          \<not> prefix ''repuesto'' (lower p) \<and> \<not> prefix ''trabajo'' (lower p))
               (map strip partes))),
      t @ concat (map (\<lambda>p. '' '' @ p)
            (filter (\<lambda>p. prefix ''trabajo'' (lower p) \<or>
                          \<not> prefix ''repuesto'' (lower p) \<and> \<not> prefix ''trabajo'' (lower p))
               (map strip partes))))"
proof (induction partes arbitrary: r t)
  case Nil
  show ?case by simp
next
  case (Cons parte partes)
  show ?case
  proof (cases "prefix ''repuesto'' (lower (strip parte))")
    case True
    with etiquetas_disjuntas [OF True] show ?thesis
      by (simp add: Cons.IH Let_def)
  next
    case False
    then show ?thesis
      by (simp add: Cons.IH Let_def)
  qed
qed

text \<open>
  Claim C8 (segments). For a non-empty description the analyzer splits on \<open>|\<close> and
  strips each segment. The parts accumulator is the concatenation, in order and
  each preceded by a space, of the segments labelled \<open>repuesto\<close> (prefix of the
  lower-cased segment) and of the segments with neither label; the labour
  accumulator is that of the segments labelled \<open>trabajo\<close> and of the segments with
  neither label. The two passes run on these accumulators.
\<close>

theorem segmentos_por_etiqueta:
  "desc \<noteq> [] \<Longrightarrow>
     separar (split (CHR ''|'') desc) ([], []) =
       (concat (map (\<lambda>p. '' '' @ p)
          (filter (\<lambda>p. prefix ''repuesto'' (lower p) \<or>
                        \<not> prefix ''repuesto'' (lower p) \<and> \<not> prefix ''trabajo'' (lower p))
             (map strip (split (CHR ''|'') desc)))),
        concat (map (\<lambda>p. '' '' @ p)
          (filter (\<lambda>p. prefix ''trabajo'' (lower p) \<or>
                        \<not> prefix ''repuesto'' (lower p) \<and> \<not> prefix ''trabajo'' (lower p))
             (map strip (split (CHR ''|'') desc))))) \<and>
     analizar_mantenimiento_completo rd escribir pr pt almacen (Some desc) None =
       Inr (informe rd
              (detectar_repuestos rd (fst (separar (split (CHR ''|'') desc) ([], []))) pr (rd 0.3))
              (detectar_trabajos rd (snd (separar (split (CHR ''|'') desc) ([], []))) pt (rd 0.3)),
            almacen)"
  using separar_acumula [of "split (CHR ''|'') desc" "[]" "[]"]
  by (simp add: analizar_Some)

theorem segmentos_por_etiqueta_witness:
  "split (CHR ''|'') ''REPUESTO a| Trabajo |c'' = [''REPUESTO a'', '' Trabajo '', ''c''] \<and>
   separar (split (CHR ''|'') ''REPUESTO a| Trabajo |c'') ([], []) =
     ('' REPUESTO a c'', '' Trabajo c'')"
proof -
  have "''REPUESTO a| Trabajo |c'' \<noteq> []" by simp
  from segmentos_por_etiqueta [OF this, of exacto escribir_lista "[]" "[]" "[]"]
  show ?thesis
    by (simp add: split_def strip_def lower_def lower_char_def es_espacio_def
        mayusculas_def minusculas_def)
qed

end
